theory Spec2Isabelle
  imports Main
begin

section \<open>Python string primitives\<close>

text \<open>
  Text is a list of characters; a character stands for the code point of the same number,
  so the model covers the code points below 256. The primitives below follow the Python
  built-ins the program calls.
\<close>

definition ord :: "char \<Rightarrow> nat" where
  "ord c = of_char c"

text \<open>\<open>s.startswith(p)\<close> and \<open>sub in s\<close>.\<close>

definition startswith :: "string \<Rightarrow> string \<Rightarrow> bool" where
  "startswith s p = (take (length p) s = p)"

fun str_in :: "string \<Rightarrow> string \<Rightarrow> bool" where
  "str_in sub [] = (sub = [])"
| "str_in sub (c # s) = (startswith (c # s) sub \<or> str_in sub s)"

text \<open>\<open>str(n)\<close> of a non-negative integer, as the f-strings render the counts.\<close>

definition digit_char :: "nat \<Rightarrow> char" where
  "digit_char d = char_of (48 + d)"

fun str_nat :: "nat \<Rightarrow> string" where
  "str_nat n = (if n < 10 then [digit_char n] else str_nat (n div 10) @ [digit_char (n mod 10)])"

declare str_nat.simps [simp del]

text \<open>
  \<open>s.strip()\<close>, \<open>s.lstrip(chars)\<close>: the white space of \<open>str.isspace\<close> below 256 is
  the code points 9 to 13, 28 to 32, 133 and 160.
\<close>

definition is_space :: "char \<Rightarrow> bool" where
  "is_space c = (ord c \<in> set [9, 10, 11, 12, 13, 28, 29, 30, 31, 32, 133, 160])"

definition lstrip_chars :: "char list \<Rightarrow> string \<Rightarrow> string" where
  "lstrip_chars cs s = dropWhile (\<lambda>c. c \<in> set cs) s"

definition strip :: "string \<Rightarrow> string" where
  "strip s = rev (dropWhile is_space (rev (dropWhile is_space s)))"

text \<open>\<open>s.split(sep)\<close> for a one-character separator: always at least one field.\<close>

fun split_from :: "char \<Rightarrow> string \<Rightarrow> string \<Rightarrow> string list" where
  "split_from sep cur [] = [cur]"
| "split_from sep cur (c # s) =
     (if c = sep then cur # split_from sep [] s else split_from sep (cur @ [c]) s)"

definition split :: "char \<Rightarrow> string \<Rightarrow> string list" where
  "split sep s = split_from sep [] s"

text \<open>
  \<open>s.split(sep, 1)\<close>: the text before the first separator and, when there is one, the
  text after it.
\<close>

fun split_once_from :: "char \<Rightarrow> string \<Rightarrow> string \<Rightarrow> string list" where
  "split_once_from sep cur [] = [cur]"
| "split_once_from sep cur (c # s) =
     (if c = sep then [cur, s] else split_once_from sep (cur @ [c]) s)"

definition split_once :: "char \<Rightarrow> string \<Rightarrow> string list" where
  "split_once sep s = split_once_from sep [] s"

text \<open>
  \<open>s.splitlines()\<close>: a line ends at the code points 10 to 13, 28 to 30 and 133, a
  carriage return followed by a line feed counts once, and there is no empty last line.
\<close>

definition is_linebreak :: "char \<Rightarrow> bool" where
  "is_linebreak c = (ord c \<in> set [10, 11, 12, 13, 28, 29, 30, 133])"

fun splitlines_from :: "string \<Rightarrow> string \<Rightarrow> string list" where
  "splitlines_from cur [] = (if cur = [] then [] else [cur])"
| "splitlines_from cur [c] = (if is_linebreak c then [cur] else [cur @ [c]])"
| "splitlines_from cur (c # d # s) =
     (if ord c = 13 \<and> ord d = 10 then cur # splitlines_from [] s
      else if is_linebreak c then cur # splitlines_from [] (d # s)
      else splitlines_from (cur @ [c]) (d # s))"

definition splitlines :: "string \<Rightarrow> string list" where
  "splitlines s = splitlines_from [] s"

text \<open>\<open>s.replace(old, '''')\<close> for a non-empty \<open>old\<close>: every occurrence, left to right.\<close>

fun remove_all :: "string \<Rightarrow> string \<Rightarrow> string" where
  "remove_all old [] = []"
| "remove_all old (c # s) =
     (if old \<noteq> [] \<and> startswith (c # s) old then remove_all old (drop (length old) (c # s))
      else c # remove_all old s)"

text \<open>
  \<open>s.isdigit()\<close> and \<open>int(s)\<close>. Below 256 \<open>isdigit\<close> accepts the decimal digits and
  the superscripts 178, 179 and 185; \<open>int\<close> raises \<open>ValueError\<close> on the superscripts.
\<close>

datatype py_error = ValueError | IndexError | OSError string

definition is_decimal :: "char \<Rightarrow> bool" where
  "is_decimal c = (48 \<le> ord c \<and> ord c \<le> 57)"

definition isdigit :: "string \<Rightarrow> bool" where
  "isdigit s = (s \<noteq> [] \<and> list_all (\<lambda>c. is_decimal c \<or> ord c \<in> set [178, 179, 185]) s)"

definition digits_value :: "string \<Rightarrow> nat" where
  "digits_value s = foldl (\<lambda>acc c. 10 * acc + (ord c - 48)) 0 s"

definition py_int :: "string \<Rightarrow> py_error + nat" where
  "py_int s = (if s \<noteq> [] \<and> list_all is_decimal s then Inr (digits_value s) else Inl ValueError)"

text \<open>\<open>s.lower()\<close> and \<open>re.findall(r"[a-zA-Z]+", s)\<close>, \<open>sep.join(ws)\<close>.\<close>

definition is_ascii_upper :: "char \<Rightarrow> bool" where
  "is_ascii_upper c = (65 \<le> ord c \<and> ord c \<le> 90)"

definition is_ascii_lower :: "char \<Rightarrow> bool" where
  "is_ascii_lower c = (97 \<le> ord c \<and> ord c \<le> 122)"

definition is_ascii_alpha :: "char \<Rightarrow> bool" where
  "is_ascii_alpha c = (is_ascii_lower c \<or> is_ascii_upper c)"

definition lower_char :: "char \<Rightarrow> char" where
  "lower_char c =
     (if is_ascii_upper c \<or> (192 \<le> ord c \<and> ord c \<le> 222 \<and> ord c \<noteq> 215)
      then char_of (ord c + 32) else c)"

definition lower :: "string \<Rightarrow> string" where
  "lower s = map lower_char s"

fun findall_alpha_from :: "string \<Rightarrow> string \<Rightarrow> string list" where
  "findall_alpha_from cur [] = (if cur = [] then [] else [cur])"
| "findall_alpha_from cur (c # s) =
     (if is_ascii_alpha c then findall_alpha_from (cur @ [c]) s
      else (if cur = [] then [] else [cur]) @ findall_alpha_from [] s)"

definition findall_alpha :: "string \<Rightarrow> string list" where
  "findall_alpha s = findall_alpha_from [] s"

fun join :: "string \<Rightarrow> string list \<Rightarrow> string" where
  "join sep [] = []"
| "join sep [w] = w"
| "join sep (w # v # ws) = w @ sep @ join sep (v # ws)"

section \<open>Paths\<close>

text \<open>
  A \<open>pathlib\<close> path on POSIX is a root (empty, one slash or exactly two slashes) and the
  list of its components; empty components and \<open>.\<close> are dropped when a text is parsed.
\<close>

datatype pure_path = PurePath (root: string) (parts: "string list")

definition Path :: "string \<Rightarrow> pure_path" where
  "Path s =
     PurePath
       (if startswith s ''//'' \<and> \<not> startswith s ''///'' then ''//''
        else if startswith s ''/'' then ''/'' else [])
       (filter (\<lambda>p. p \<noteq> [] \<and> p \<noteq> ''.'') (split CHR ''/'' s))"

definition path_str :: "pure_path \<Rightarrow> string" where
  "path_str p = (if root p = [] \<and> parts p = [] then ''.'' else root p @ join ''/'' (parts p))"

definition path_name :: "pure_path \<Rightarrow> string" where
  "path_name p = (if parts p = [] then [] else last (parts p))"

definition parent :: "pure_path \<Rightarrow> pure_path" where
  "parent p = (if parts p = [] then p else PurePath (root p) (butlast (parts p)))"

text \<open>\<open>p / name\<close> for a single relative component \<open>name\<close>.\<close>

definition path_child :: "pure_path \<Rightarrow> string \<Rightarrow> pure_path" where
  "path_child p n = PurePath (root p) (parts p @ [n])"

section \<open>RepoStatus and the eligibility predicates\<close>

record RepoStatus =
  name :: string
  path :: pure_path
  type_label :: string
  branch :: string
  remote_exists :: bool
  sync_status :: string
  rebase_status :: string
  pr_status :: string
  main_branch :: string
  has_changes :: bool

definition why_not_pull :: "RepoStatus \<Rightarrow> string option" where
  "why_not_pull r =
     (if \<not> remote_exists r then Some ''no remote branch''
      else if \<not> str_in ''Behind'' (sync_status r) then Some ''already synced''
      else if str_in ''Diverged'' (sync_status r) then Some ''diverged (use force push)''
      else if has_changes r then Some ''has uncommitted changes''
      else None)"

definition can_pull :: "RepoStatus \<Rightarrow> bool" where
  "can_pull r = (why_not_pull r = None)"

definition why_not_rebase :: "RepoStatus \<Rightarrow> string option" where
  "why_not_rebase r =
     (let is_on_main = branch r \<in> set [main_branch r, ''main'', ''dev'', ''master'']
      in if is_on_main then Some ''on main branch''
         else if has_changes r then Some ''has uncommitted changes''
         else
           let is_behind_remote =
                 (str_in ''Behind'' (sync_status r) \<and> \<not> str_in ''Diverged'' (sync_status r));
               is_behind_main =
                 (sync_status r \<in> set [''Synced'', ''-''] \<and> str_in ''Behind'' (rebase_status r))
           in if \<not> (is_behind_remote \<or> is_behind_main) then Some ''already rebased''
              else None)"

definition can_rebase :: "RepoStatus \<Rightarrow> bool" where
  "can_rebase r = (why_not_rebase r = None)"

definition why_not_delete_local :: "RepoStatus \<Rightarrow> string option" where
  "why_not_delete_local r =
     (if \<not> remote_exists r then Some ''no remote branch (data would be lost)''
      else if has_changes r then Some ''has uncommitted changes''
      else if sync_status r \<noteq> ''Synced''
        then Some (''not synced with remote ('' @ sync_status r @ '')'')
      else None)"

definition can_delete_local :: "RepoStatus \<Rightarrow> bool" where
  "can_delete_local r = (why_not_delete_local r = None)"

section \<open>The outside world\<close>

text \<open>
  The program reaches git, the GitHub client and the file system through calls whose
  answers it does not control. The model records the commands that change something
  (\<open>run_git\<close>, \<open>shutil.rmtree\<close>) in a list of calls, and an environment gives the answer
  of every call as a function of the calls made before it.
\<close>

datatype call = RunGit "string list" pure_path | Rmtree pure_path

text \<open>What \<open>subprocess.run\<close> gives back or raises.\<close>

datatype proc_result =
    Completed int string string
  | TimeoutExpired
  | Raised string

text \<open>
  The decoded answer of \<open>gh pr list --json state,number\<close>: for each pull request the
  text of its \<open>state\<close> and \<open>number\<close> fields when present; \<open>GhRaised\<close> stands for
  any exception while running the client or decoding its output.
\<close>

datatype gh_reply = GhRaised | GhPrs "(string option \<times> string option) list"

record env =
  git_proc :: "call list \<Rightarrow> string list \<Rightarrow> pure_path \<Rightarrow> proc_result"
  is_file :: "call list \<Rightarrow> pure_path \<Rightarrow> bool"
  is_dir :: "call list \<Rightarrow> pure_path \<Rightarrow> bool"
  path_exists :: "call list \<Rightarrow> pure_path \<Rightarrow> bool"
  read_text :: "call list \<Rightarrow> pure_path \<Rightarrow> py_error + string"
  iterdir :: "call list \<Rightarrow> pure_path \<Rightarrow> py_error + string list"
  rmtree_raises :: "call list \<Rightarrow> pure_path \<Rightarrow> string option"
  which_gh :: "call list \<Rightarrow> int"
  gh_pr_list :: "call list \<Rightarrow> string \<Rightarrow> pure_path \<Rightarrow> gh_reply"

section \<open>run_git\<close>

definition error_line :: "string \<Rightarrow> string" where
  "error_line error =
     (case find (\<lambda>line. startswith line ''fatal:'' \<or> startswith line ''error:''
                        \<or> startswith line ''warning:'') (split (char_of (10::nat)) error) of
        Some line \<Rightarrow> line
      | None \<Rightarrow>
          (let lines = filter (\<lambda>l. strip l \<noteq> []) (split (char_of (10::nat)) error)
           in if lines \<noteq> [] then last lines else ''Unknown error''))"

definition run_git ::
  "env \<Rightarrow> string list \<Rightarrow> pure_path \<Rightarrow> call list \<Rightarrow> (bool \<times> string) \<times> call list" where
  "run_git e args cwd tr =
     ((case git_proc e tr args cwd of
         Completed returncode out err \<Rightarrow>
           if returncode = 0 then (True, strip out)
           else (False, error_line (if strip err \<noteq> [] then strip err else strip out))
       | TimeoutExpired \<Rightarrow> (False, ''Command timed out after 30s'')
       | Raised msg \<Rightarrow> (False, msg)),
      tr @ [RunGit args cwd])"

section \<open>The inspector\<close>

text \<open>
  The pointer file of a worktree: \<open>Path(content.split(":", 1)[1].strip())\<close> and three
  steps up. The index raises when there is no second field.
\<close>

definition pointer_target :: "string \<Rightarrow> py_error + pure_path" where
  "pointer_target content =
     (case split_once CHR '':'' content of
        [_, rest] \<Rightarrow> Inr (parent (parent (parent (Path (strip rest)))))
      | _ \<Rightarrow> Inl IndexError)"

definition get_main_branch :: "env \<Rightarrow> pure_path \<Rightarrow> bool \<Rightarrow> call list \<Rightarrow> string" where
  "get_main_branch e repo_path is_worktree tr =
     (if str_in ''monorepo'' (path_name repo_path) then ''dev''
      else if is_worktree \<and> is_file e tr (path_child repo_path ''.git'') then
        (case read_text e tr (path_child repo_path ''.git'') of
           Inl _ \<Rightarrow> ''main''
         | Inr text \<Rightarrow>
             (let content = strip text
              in if startswith content ''gitdir:'' then
                   (case pointer_target content of
                      Inl _ \<Rightarrow> ''main''
                    | Inr parent_repo \<Rightarrow>
                        if str_in ''monorepo'' (path_name parent_repo) then ''dev'' else ''main'')
                 else ''main''))
      else ''main'')"

fun any_tracked_line :: "string list \<Rightarrow> bool" where
  "any_tracked_line [] = False"
| "any_tracked_line (line # rest) =
     (if line \<noteq> [] \<and> \<not> startswith line ''??'' \<and> \<not> startswith line ''!!'' then True
      else any_tracked_line rest)"

definition has_uncommitted_changes :: "env \<Rightarrow> pure_path \<Rightarrow> call list \<Rightarrow> bool \<times> call list" where
  "has_uncommitted_changes e repo_path tr =
     (case run_git e [''status'', ''--porcelain''] repo_path tr of
        ((ok, output), tr1) \<Rightarrow>
          if \<not> ok then (True, tr1) else (any_tracked_line (splitlines output), tr1))"

definition state_map :: "string \<Rightarrow> string option" where
  "state_map = map_of [(''OPEN'', ''Open''), (''MERGED'', ''Merged''), (''CLOSED'', ''Closed'')]"

definition get_pr_status :: "env \<Rightarrow> string \<Rightarrow> pure_path \<Rightarrow> call list \<Rightarrow> string" where
  "get_pr_status e branch' cwd tr =
     (if branch' \<in> set [''main'', ''dev'', ''master'', ''DETACHED'', ''HEAD''] then ''-''
      else if which_gh e tr \<noteq> 0 then ''?''
      else
        (case gh_pr_list e tr branch' cwd of
           GhRaised \<Rightarrow> ''?''
         | GhPrs [] \<Rightarrow> ''No PR''
         | GhPrs ((state, number) # _) \<Rightarrow>
             (case state_map (case state of None \<Rightarrow> [] | Some s \<Rightarrow> s) of
                None \<Rightarrow> ''PR'' | Some label \<Rightarrow> label)
             @ '' #'' @ (case number of None \<Rightarrow> [] | Some n \<Rightarrow> n)))"

text \<open>\<open>int(x) if ok and x.isdigit() else 0\<close>.\<close>

definition count_of :: "bool \<Rightarrow> string \<Rightarrow> py_error + nat" where
  "count_of ok x = (if ok \<and> isdigit x then py_int x else Inr 0)"

text \<open>The f-strings that render a sync status with its counts.\<close>

definition fmt_diverged :: "nat \<Rightarrow> nat \<Rightarrow> string" where
  "fmt_diverged ahead behind = ''Diverged (+'' @ str_nat ahead @ ''/-'' @ str_nat behind @ '')''"

definition fmt_ahead :: "nat \<Rightarrow> string" where
  "fmt_ahead ahead = ''Ahead (+'' @ str_nat ahead @ '')''"

definition fmt_behind :: "nat \<Rightarrow> string" where
  "fmt_behind behind = ''Behind (-'' @ str_nat behind @ '')''"

text \<open>The sync status of \<open>check_repo\<close>, from the remote check to the four-way classification.\<close>

definition check_repo_sync ::
  "env \<Rightarrow> pure_path \<Rightarrow> string \<Rightarrow> bool \<Rightarrow> call list \<Rightarrow> (py_error + string) \<times> call list" where
  "check_repo_sync e repo_path remote_branch remote_exists' tr =
     (if \<not> remote_exists' then (Inr ''-'', tr)
      else
        case run_git e [''rev-parse'', ''HEAD''] repo_path tr of ((ok, local_commit), tr1) \<Rightarrow>
        case run_git e [''rev-parse'', remote_branch] repo_path tr1 of ((ok2, remote_commit), tr2) \<Rightarrow>
        if ok \<and> ok2 \<and> local_commit = remote_commit then (Inr ''Synced'', tr2)
        else
          case run_git e [''rev-list'', ''--count'', remote_branch @ ''..HEAD''] repo_path tr2 of
            ((ok3, ahead_text), tr3) \<Rightarrow>
          case count_of ok3 ahead_text of
            Inl err \<Rightarrow> (Inl err, tr3)
          | Inr ahead \<Rightarrow>
              case run_git e [''rev-list'', ''--count'', ''HEAD..'' @ remote_branch] repo_path tr3 of
                ((ok4, behind_text), tr4) \<Rightarrow>
              case count_of ok4 behind_text of
                Inl err \<Rightarrow> (Inl err, tr4)
              | Inr behind \<Rightarrow>
                  if ahead > 0 \<and> behind > 0
                    then (Inr (fmt_diverged ahead behind), tr4)
                  else if ahead > 0 then (Inr (fmt_ahead ahead), tr4)
                  else if behind > 0 then (Inr (fmt_behind behind), tr4)
                  else (Inr ''Synced'', tr4))"

text \<open>The rebase status of \<open>check_repo\<close>.\<close>

definition check_repo_rebase ::
  "env \<Rightarrow> pure_path \<Rightarrow> string \<Rightarrow> string \<Rightarrow> call list \<Rightarrow> (py_error + string) \<times> call list" where
  "check_repo_rebase e repo_path branch' main_branch' tr =
     (let origin_main = ''origin/'' @ main_branch';
          is_on_main_branch = branch' \<in> set [main_branch', ''main'', ''dev'', ''master'']
      in if is_on_main_branch then (Inr ''-'', tr)
         else
           case run_git e [''rev-parse'', origin_main] repo_path tr of ((ok, _), tr1) \<Rightarrow>
           if ok then
             case run_git e [''rev-parse'', origin_main] repo_path tr1 of ((ok1, main_commit), tr2) \<Rightarrow>
             case run_git e [''merge-base'', ''HEAD'', origin_main] repo_path tr2 of
               ((ok2, merge_base), tr3) \<Rightarrow>
             if ok1 \<and> ok2 \<and> merge_base = main_commit then (Inr ''Rebased'', tr3)
             else
               case run_git e [''rev-list'', ''--count'', ''HEAD..'' @ origin_main] repo_path tr3 of
                 ((ok3, behind_text), tr4) \<Rightarrow>
               case count_of ok3 behind_text of
                 Inl err \<Rightarrow> (Inl err, tr4)
               | Inr behind_main \<Rightarrow>
                   (Inr (''Behind '' @ main_branch' @ '' (-'' @ str_nat behind_main @ '')''), tr4)
           else (Inr (''No '' @ main_branch'), tr1))"

text \<open>
  \<open>check_repo\<close>: \<open>Inr None\<close> when the directory has no readable HEAD, \<open>Inl\<close> when a count
  cannot be converted, otherwise the repository state.
\<close>

definition check_repo ::
  "env \<Rightarrow> pure_path \<Rightarrow> bool \<Rightarrow> call list \<Rightarrow> (py_error + RepoStatus option) \<times> call list" where
  "check_repo e repo_path is_worktree tr =
     (let type_label' = (if is_worktree then ''Worktree'' else ''Repo'');
          name' = path_name repo_path;
          main_branch' = get_main_branch e repo_path is_worktree tr
      in case run_git e [''rev-parse'', ''--abbrev-ref'', ''HEAD''] repo_path tr of
        ((ok, branch0), tr1) \<Rightarrow>
        if \<not> ok then (Inr None, tr1)
        else
          let branch' = (if branch0 \<noteq> [] then branch0 else ''DETACHED'')
          in case run_git e [''fetch'', ''--all'', ''--quiet''] repo_path tr1 of (_, tr2) \<Rightarrow>
             case run_git e [''ls-remote'', ''--heads'', ''origin'', branch'] repo_path tr2 of
               ((ok_remote, remote_check), tr3) \<Rightarrow>
             let remote_exists' = (if ok_remote then str_in branch' remote_check else False);
                 remote_branch = ''origin/'' @ branch'
             in case check_repo_sync e repo_path remote_branch remote_exists' tr3 of
                  (Inl err, tr4) \<Rightarrow> (Inl err, tr4)
                | (Inr sync_status', tr4) \<Rightarrow>
                    case check_repo_rebase e repo_path branch' main_branch' tr4 of
                      (Inl err, tr5) \<Rightarrow> (Inl err, tr5)
                    | (Inr rebase_status', tr5) \<Rightarrow>
                        let pr_status' = get_pr_status e branch' repo_path tr5
                        in case has_uncommitted_changes e repo_path tr5 of
                          (has_changes', tr6) \<Rightarrow>
                            (Inr (Some \<lparr>name = name', path = repo_path,
                                type_label = type_label', branch = branch',
                                remote_exists = remote_exists', sync_status = sync_status',
                                rebase_status = rebase_status', pr_status = pr_status',
                                main_branch = main_branch', has_changes = has_changes'\<rparr>), tr6))"

section \<open>Feature numbers and branch names\<close>

text \<open>\<open>re.match(r"^(\d{3})-", s)\<close> and \<open>int\<close> of its group.\<close>

fun feature_prefix :: "string \<Rightarrow> nat option" where
  "feature_prefix (a # b # c # d # _) =
     (if is_decimal a \<and> is_decimal b \<and> is_decimal c \<and> d = CHR ''-''
      then Some (digits_value [a, b, c]) else None)"
| "feature_prefix _ = None"

text \<open>\<open>line.strip().lstrip("* ").replace("remotes/origin/", "")\<close>.\<close>

definition clean_branch_line :: "string \<Rightarrow> string" where
  "clean_branch_line line = remove_all ''remotes/origin/'' (lstrip_chars ''* '' (strip line))"

fun scan_branch_lines :: "nat \<Rightarrow> string list \<Rightarrow> nat" where
  "scan_branch_lines highest [] = highest"
| "scan_branch_lines highest (line # rest) =
     (case feature_prefix (clean_branch_line line) of
        Some num \<Rightarrow> scan_branch_lines (max highest num) rest
      | None \<Rightarrow> scan_branch_lines highest rest)"

fun scan_spec_items :: "env \<Rightarrow> call list \<Rightarrow> pure_path \<Rightarrow> nat \<Rightarrow> string list \<Rightarrow> nat" where
  "scan_spec_items e tr specs_dir highest [] = highest"
| "scan_spec_items e tr specs_dir highest (spec_item # rest) =
     (if is_dir e tr (path_child specs_dir spec_item) then
        (case feature_prefix spec_item of
           Some num \<Rightarrow> scan_spec_items e tr specs_dir (max highest num) rest
         | None \<Rightarrow> scan_spec_items e tr specs_dir highest rest)
      else scan_spec_items e tr specs_dir highest rest)"

fun scan_items :: "env \<Rightarrow> call list \<Rightarrow> pure_path \<Rightarrow> nat \<Rightarrow> string list \<Rightarrow> py_error + nat" where
  "scan_items e tr scan_dir highest [] = Inr highest"
| "scan_items e tr scan_dir highest (item # rest) =
     (if \<not> is_dir e tr (path_child scan_dir item) then scan_items e tr scan_dir highest rest
      else
        let specs_dir = path_child (path_child scan_dir item) ''specs''
        in if path_exists e tr specs_dir then
             (case iterdir e tr specs_dir of
                Inl err \<Rightarrow> Inl err
              | Inr spec_items \<Rightarrow>
                  scan_items e tr scan_dir (scan_spec_items e tr specs_dir highest spec_items) rest)
           else scan_items e tr scan_dir highest rest)"

definition get_next_feature_number ::
  "env \<Rightarrow> pure_path \<Rightarrow> pure_path \<Rightarrow> call list \<Rightarrow> (py_error + nat) \<times> call list" where
  "get_next_feature_number e repo_path scan_dir tr =
     (case run_git e [''branch'', ''-a''] repo_path tr of
        ((ok, branches), tr1) \<Rightarrow>
          let highest = (if ok then scan_branch_lines 0 (splitlines branches) else 0)
          in case iterdir e tr1 scan_dir of
               Inl err \<Rightarrow> (Inl err, tr1)
             | Inr items \<Rightarrow>
                 (case scan_items e tr1 scan_dir highest items of
                    Inl err \<Rightarrow> (Inl err, tr1)
                  | Inr highest' \<Rightarrow> (Inr (highest' + 1), tr1)))"

text \<open>
  What \<open>git branch -a\<close> prints, by git's documentation: one branch on each line, after a
  column of two characters that is \<open>* \<close> for the current branch, \<open>+ \<close> for a branch
  checked out in a linked worktree and blank otherwise; a branch of the remote \<open>origin\<close>
  is printed as \<open>remotes/origin/\<close> and its name. \<open>listed_branch_name\<close> is the branch
  name that a line of the listing stands for. It does not come from the program: it is
  what the program's scan is compared with.
\<close>

definition listed_branch_name :: "string \<Rightarrow> string" where
  "listed_branch_name line =
     (let shown = strip line;
          shown = (if startswith shown ''* '' \<or> startswith shown ''+ '' then drop 2 shown
                   else shown)
      in if startswith shown ''remotes/origin/'' then drop (length ''remotes/origin/'') shown
         else shown)"

text \<open>
  What the program's scan looks at: the lines of the branch listing as
  \<open>clean_branch_line\<close> leaves them, when the listing succeeds, and the names of the
  folders inside the \<open>specs\<close> folder of each directory below \<open>scan_dir\<close>.
\<close>

definition cleaned_branch_lines :: "env \<Rightarrow> pure_path \<Rightarrow> call list \<Rightarrow> string list" where
  "cleaned_branch_lines e repo_path tr =
     (case fst (run_git e [''branch'', ''-a''] repo_path tr) of
        (ok, branches) \<Rightarrow> if ok then map clean_branch_line (splitlines branches) else [])"

definition spec_folders_of :: "env \<Rightarrow> call list \<Rightarrow> pure_path \<Rightarrow> string \<Rightarrow> string list" where
  "spec_folders_of e tr scan_dir item =
     (let specs_dir = path_child (path_child scan_dir item) ''specs''
      in if is_dir e tr (path_child scan_dir item) \<and> path_exists e tr specs_dir then
           (case iterdir e tr specs_dir of
              Inl _ \<Rightarrow> []
            | Inr spec_items \<Rightarrow> filter (\<lambda>s. is_dir e tr (path_child specs_dir s)) spec_items)
         else [])"

definition scanned_spec_folders :: "env \<Rightarrow> call list \<Rightarrow> pure_path \<Rightarrow> string list \<Rightarrow> string list" where
  "scanned_spec_folders e tr scan_dir items = concat (map (spec_folders_of e tr scan_dir) items)"

text \<open>The three-digit prefixes found in a list of names.\<close>

definition found_prefixes :: "string list \<Rightarrow> nat list" where
  "found_prefixes names = List.map_filter feature_prefix names"

definition stop_words :: "string list" where
  "stop_words =
    [''i'', ''a'', ''an'', ''the'', ''to'', ''for'', ''of'', ''in'', ''on'', ''at'', ''by'', ''with'',
     ''from'', ''is'', ''are'', ''was'', ''were'', ''be'', ''been'', ''being'', ''have'', ''has'',
     ''had'', ''do'', ''does'', ''did'', ''will'', ''would'', ''should'', ''could'', ''can'',
     ''may'', ''might'', ''must'', ''shall'', ''this'', ''that'', ''these'', ''those'', ''my'',
     ''your'', ''our'', ''their'', ''want'', ''need'', ''add'', ''get'', ''set'', ''build'',
     ''create'', ''implement'', ''develop'', ''make'', ''new'']"

definition generate_speckit_branch_name :: "string \<Rightarrow> string" where
  "generate_speckit_branch_name description =
     (let words = findall_alpha (lower description);
          meaningful = filter (\<lambda>w. w \<notin> set stop_words \<and> length w \<ge> 3) words;
          meaningful = (if meaningful = [] then take 3 (filter (\<lambda>w. length w \<ge> 2) words)
                        else meaningful)
      in if meaningful \<noteq> [] then join ''-'' (take 4 meaningful) else ''feature'')"

text \<open>A word of a generated branch suffix: lowercase ASCII letters, at least one.\<close>

definition word_ok :: "string \<Rightarrow> bool" where
  "word_ok w = (w \<noteq> [] \<and> list_all is_ascii_lower w)"

section \<open>Mutating procedures\<close>

definition reset_to_remote ::
  "env \<Rightarrow> RepoStatus \<Rightarrow> call list \<Rightarrow> (bool \<times> string) \<times> call list" where
  "reset_to_remote e repo tr =
     (case run_git e [''fetch'', ''origin''] (path repo) tr of ((ok, output), tr1) \<Rightarrow>
      if \<not> ok then ((False, ''Fetch failed: '' @ output), tr1)
      else
        case run_git e [''reset'', ''--hard'', ''origin/'' @ branch repo] (path repo) tr1 of
          ((ok, output), tr2) \<Rightarrow>
        if \<not> ok then ((False, ''Reset failed: '' @ output), tr2)
        else
          case run_git e [''clean'', ''-fd''] (path repo) tr2 of ((ok, output), tr3) \<Rightarrow>
          if \<not> ok then ((False, ''Clean failed: '' @ output), tr3)
          else ((True, ''Reset to origin/'' @ branch repo), tr3))"

text \<open>
  \<open>try: shutil.rmtree(p); return True, done\<close> with every exception turned into
  \<open>False, "Delete failed: ..."\<close>.
\<close>

definition rmtree_or_report ::
  "env \<Rightarrow> pure_path \<Rightarrow> string \<Rightarrow> call list \<Rightarrow> (bool \<times> string) \<times> call list" where
  "rmtree_or_report e p done tr =
     ((case rmtree_raises e tr p of
         None \<Rightarrow> (True, done)
       | Some msg \<Rightarrow> (False, ''Delete failed: '' @ msg)),
      tr @ [Rmtree p])"

definition delete_local_folder ::
  "env \<Rightarrow> RepoStatus \<Rightarrow> call list \<Rightarrow> (py_error + bool \<times> string) \<times> call list" where
  "delete_local_folder e repo tr =
     (if type_label repo = ''Worktree'' then
        case run_git e [''rev-parse'', ''--git-dir''] (path repo) tr of ((ok, git_dir), tr1) \<Rightarrow>
        let fallback =
              (case rmtree_or_report e (path repo) (''Worktree folder deleted: '' @ name repo) tr1 of
                 (res, tr2) \<Rightarrow> (Inr res, tr2))
        in if ok \<and> git_dir \<noteq> [] then
             if is_file e tr1 (path_child (path repo) ''.git'') then
               case read_text e tr1 (path_child (path repo) ''.git'') of
                 Inl err \<Rightarrow> (Inl err, tr1)
               | Inr text \<Rightarrow>
                   let content = strip text
                   in if startswith content ''gitdir:'' then
                        case pointer_target content of
                          Inl err \<Rightarrow> (Inl err, tr1)
                        | Inr main_repo \<Rightarrow>
                            if path_exists e tr1 main_repo then
                              case run_git e [''worktree'', ''remove'', ''--force'',
                                     path_str (path repo)] main_repo tr1 of
                                ((ok, output), tr2) \<Rightarrow>
                                  if ok then (Inr (True, ''Worktree removed: '' @ name repo), tr2)
                                  else (Inr (False, ''Worktree remove failed: '' @ output), tr2)
                            else fallback
                      else fallback
             else fallback
           else fallback
      else
        case rmtree_or_report e (path repo) (''Repo deleted: '' @ name repo) tr of
          (res, tr1) \<Rightarrow> (Inr res, tr1))"

section \<open>The status variants of the data model\<close>

text \<open>
  The data model lists the sync status as Synced, Ahead(n), Behind(n),
  Diverged(ahead, behind) or Unknown. The inspector keeps the status as text; the
  predicates below say that a text is the rendering of a variant with non-zero counts.
\<close>

definition sync_is_synced :: "string \<Rightarrow> bool" where
  "sync_is_synced s = (s = ''Synced'')"

definition sync_is_ahead :: "string \<Rightarrow> bool" where
  "sync_is_ahead s = (\<exists>n>0. s = fmt_ahead n)"

definition sync_is_behind :: "string \<Rightarrow> bool" where
  "sync_is_behind s = (\<exists>n>0. s = fmt_behind n)"

definition sync_is_diverged :: "string \<Rightarrow> bool" where
  "sync_is_diverged s =
     (\<exists>ahead>0. \<exists>behind>0. s = fmt_diverged ahead behind)"

definition sync_is_unknown :: "string \<Rightarrow> bool" where
  "sync_is_unknown s = (s = ''-'')"

section \<open>Sample inputs\<close>

text \<open>A world in which every command fails and every path is missing.\<close>

definition env_nothing :: env where
  "env_nothing =
     \<lparr>git_proc = (\<lambda>tr args cwd. Completed 128 [] ''fatal: not a git repository''),
      is_file = (\<lambda>tr p. False),
      is_dir = (\<lambda>tr p. False),
      path_exists = (\<lambda>tr p. False),
      read_text = (\<lambda>tr p. Inl (OSError ''No such file or directory'')),
      iterdir = (\<lambda>tr p. Inr []),
      rmtree_raises = (\<lambda>tr p. None),
      which_gh = (\<lambda>tr. 1),
      gh_pr_list = (\<lambda>tr b cwd. GhRaised)\<rparr>"

text \<open>A world in which git answers from a table of commands, with exit status 0.\<close>

definition env_git :: "(string list \<times> string) list \<Rightarrow> env" where
  "env_git table =
     env_nothing\<lparr>git_proc :=
       (\<lambda>tr args cwd. case map_of table args of
                         Some out \<Rightarrow> Completed 0 out []
                       | None \<Rightarrow> Completed 128 [] ''fatal: not a git repository'')\<rparr>"

text \<open>
  A checkout of branch \<open>b\<close> two commits ahead of and three behind its remote branch,
  rebased on \<open>origin/main\<close>, with one untracked file and nothing else to commit.
\<close>

definition git_diverged :: "string \<Rightarrow> (string list \<times> string) list" where
  "git_diverged b =
     [([''rev-parse'', ''--abbrev-ref'', ''HEAD''], b),
      ([''fetch'', ''--all'', ''--quiet''], []),
      ([''ls-remote'', ''--heads'', ''origin'', b], ''4f2a refs/heads/'' @ b),
      ([''rev-parse'', ''HEAD''], ''1c9e''),
      ([''rev-parse'', ''origin/'' @ b], ''4f2a''),
      ([''rev-list'', ''--count'', ''origin/'' @ b @ ''..HEAD''], ''2''),
      ([''rev-list'', ''--count'', ''HEAD..origin/'' @ b], ''3''),
      ([''rev-parse'', ''origin/main''], ''77d0''),
      ([''merge-base'', ''HEAD'', ''origin/main''], ''77d0''),
      ([''status'', ''--porcelain''], ''?? notes.txt'')]"

definition sample_repo :: RepoStatus where
  "sample_repo =
     \<lparr>name = ''api'', path = Path ''/work/api'', type_label = ''Repo'',
      branch = ''feature'', remote_exists = True, sync_status = ''Behind (-2)'',
      rebase_status = ''Rebased'', pr_status = ''No PR'', main_branch = ''main'',
      has_changes = False\<rparr>"

text \<open>
  The worktree \<open>/work/api-feature\<close> of the repository \<open>/work/api\<close>, attached through
  its pointer file, in a world where every git command ends as \<open>outcome\<close>.
\<close>

definition sample_worktree :: RepoStatus where
  "sample_worktree =
     \<lparr>name = ''api-feature'', path = Path ''/work/api-feature'', type_label = ''Worktree'',
      branch = ''feature'', remote_exists = True, sync_status = ''Synced'',
      rebase_status = ''Rebased'', pr_status = ''No PR'', main_branch = ''main'',
      has_changes = False\<rparr>"

definition env_worktree :: "proc_result \<Rightarrow> env" where
  "env_worktree outcome =
     env_nothing\<lparr>
       git_proc := (\<lambda>tr args cwd. outcome),
       is_file := (\<lambda>tr p. p = Path ''/work/api-feature/.git''),
       is_dir := (\<lambda>tr p. p \<in> set [Path ''/work/api'', Path ''/work/api-feature'']),
       path_exists := (\<lambda>tr p. p \<in> set [Path ''/work/api'', Path ''/work/api-feature'',
                                           Path ''/work/api-feature/.git'']),
       read_text := (\<lambda>tr p. if p = Path ''/work/api-feature/.git''
                              then Inr ''gitdir: /work/api/.git/worktrees/api-feature''
                              else Inl (OSError ''No such file or directory''))\<rparr>"

text \<open>
  The directory \<open>/work\<close> with the repository \<open>api\<close>, whose branches are \<open>041-x\<close> and
  \<open>042-oauth-login\<close> (checked out, and on the remote), a worktree with the spec folder
  \<open>043-y\<close>, and a plain file.
\<close>

definition env_features :: env where
  "env_features =
     (env_git [([''branch'', ''-a''],
                ''  041-x'' @ [char_of (10::nat)] @ ''* 042-oauth-login'' @ [char_of (10::nat)]
                @ ''  remotes/origin/042-oauth-login'')])\<lparr>
       iterdir := (\<lambda>tr p.
          if p = Path ''/work'' then Inr [''api'', ''api-042-oauth-login'', ''notes.txt'']
          else if p = Path ''/work/api-042-oauth-login/specs'' then Inr [''043-y'', ''README.md'']
          else Inl (OSError ''Not a directory'')),
       is_dir := (\<lambda>tr p. p \<in> set [Path ''/work'', Path ''/work/api'',
                                     Path ''/work/api-042-oauth-login'',
                                     Path ''/work/api-042-oauth-login/specs'',
                                     Path ''/work/api-042-oauth-login/specs/043-y'']),
       path_exists := (\<lambda>tr p. p \<in> set [Path ''/work'', Path ''/work/api'',
                                     Path ''/work/api-042-oauth-login'',
                                     Path ''/work/notes.txt'',
                                     Path ''/work/api-042-oauth-login/specs'',
                                     Path ''/work/api-042-oauth-login/specs/043-y'',
                                     Path ''/work/api-042-oauth-login/specs/README.md''])\<rparr>"

text \<open>
  The repository \<open>/work/api\<close> on branch \<open>main\<close>, with the branches \<open>041-x\<close> and
  \<open>042-oauth-login\<close>; the second is checked out in a worktree outside \<open>/work\<close>, so
  git lists it with the \<open>+\<close> mark. No directory below \<open>/work\<close> has a \<open>specs\<close> folder.
\<close>

definition env_linked :: env where
  "env_linked =
     (env_git [([''branch'', ''-a''],
                ''  041-x'' @ [char_of (10::nat)] @ ''+ 042-oauth-login'' @ [char_of (10::nat)]
                @ ''* main'' @ [char_of (10::nat)] @ ''  remotes/origin/main''
                @ [char_of (10::nat)])])\<lparr>
       iterdir := (\<lambda>tr p.
          if p = Path ''/work'' then Inr [''api'', ''notes.txt'']
          else Inl (OSError ''Not a directory'')),
       is_dir := (\<lambda>tr p. p \<in> set [Path ''/work'', Path ''/work/api'']),
       path_exists := (\<lambda>tr p. p \<in> set [Path ''/work'', Path ''/work/api'',
                                     Path ''/work/notes.txt''])\<rparr>"

section \<open>Facts about the inspector shared by several properties\<close>

lemma check_repo_sync_cases:
  assumes "check_repo_sync e p rb rex tr = (Inr s, tr')"
  shows "(\<not> rex \<and> s = ''-'') \<or>
         (rex \<and> (sync_is_synced s \<or> sync_is_ahead s \<or> sync_is_behind s \<or> sync_is_diverged s))"
  using assms
  unfolding check_repo_sync_def sync_is_synced_def sync_is_ahead_def sync_is_behind_def
    sync_is_diverged_def
  by (auto split: if_splits prod.splits sum.splits)

lemma sync_variants_exclusive:
  "\<not> (sync_is_synced s \<and> sync_is_ahead s)" "\<not> (sync_is_synced s \<and> sync_is_behind s)"
  "\<not> (sync_is_synced s \<and> sync_is_diverged s)" "\<not> (sync_is_ahead s \<and> sync_is_behind s)"
  "\<not> (sync_is_ahead s \<and> sync_is_diverged s)" "\<not> (sync_is_behind s \<and> sync_is_diverged s)"
  "\<not> (sync_is_unknown s \<and> sync_is_synced s)" "\<not> (sync_is_unknown s \<and> sync_is_ahead s)"
  "\<not> (sync_is_unknown s \<and> sync_is_behind s)" "\<not> (sync_is_unknown s \<and> sync_is_diverged s)"
  unfolding sync_is_synced_def sync_is_ahead_def sync_is_behind_def sync_is_diverged_def
    sync_is_unknown_def fmt_diverged_def fmt_ahead_def fmt_behind_def
  by auto

text \<open>
  The sync status and the rebase status of a returned state are the results of the two
  classification steps, run on the branch, the trunk and the remote flag that the state
  carries.
\<close>

lemma check_repo_fields:
  assumes "check_repo e repo_path is_worktree tr = (Inr (Some r), tr')"
  shows "\<exists>rb tr3 tr4 tr5.
           check_repo_sync e repo_path rb (remote_exists r) tr3 = (Inr (sync_status r), tr4)
         \<and> check_repo_rebase e repo_path (branch r) (main_branch r) tr4 = (Inr (rebase_status r), tr5)"
  using assms
  unfolding check_repo_def Let_def
  by (auto split: if_splits prod.splits sum.splits; blast)

lemma check_repo_rebase_on_main:
  assumes "check_repo_rebase e p b m tr = (Inr s, tr')"
    and "b \<in> set [m, ''main'', ''dev'', ''master'']"
  shows "s = ''-''"
  using assms unfolding check_repo_rebase_def Let_def by (simp split: if_splits)

text \<open>Every \<open>run_git\<close> adds its command to the calls made, whatever git answers.\<close>

lemma run_git_calls: "snd (run_git e args cwd tr) = tr @ [RunGit args cwd]"
  by (simp add: run_git_def)

lemma run_git_eq: "run_git e args cwd tr = (fst (run_git e args cwd tr), tr @ [RunGit args cwd])"
  by (simp add: run_git_def)

section \<open>Eligibility of a dirty repository\<close>

text \<open>
  C1. A repository state with \<open>has_changes = True\<close> is never eligible for pull, for
  rebase/sync or for delete-local: the three \<open>can_*\<close> predicates are false, which is the
  same as each \<open>why_not_*\<close> function returning a reason.
\<close>

theorem dirty_repo_not_eligible:
  assumes "has_changes r"
  shows "\<not> can_pull r \<and> \<not> can_rebase r \<and> \<not> can_delete_local r
         \<and> why_not_pull r \<noteq> None \<and> why_not_rebase r \<noteq> None
         \<and> why_not_delete_local r \<noteq> None"
  using assms
  by (simp add: can_pull_def can_rebase_def can_delete_local_def
      why_not_pull_def why_not_rebase_def why_not_delete_local_def Let_def)

theorem dirty_repo_not_eligible_witness:
  "has_changes (sample_repo\<lparr>has_changes := True\<rparr>)
   \<and> \<not> can_pull (sample_repo\<lparr>has_changes := True\<rparr>)
   \<and> \<not> can_rebase (sample_repo\<lparr>has_changes := True\<rparr>)
   \<and> \<not> can_delete_local (sample_repo\<lparr>has_changes := True\<rparr>)
   \<and> can_pull sample_repo"
proof -
  have dirty: "has_changes (sample_repo\<lparr>has_changes := True\<rparr>)" by simp
  have clean: "can_pull sample_repo"
    by (simp add: can_pull_def why_not_pull_def sample_repo_def startswith_def)
  from dirty_repo_not_eligible [OF dirty] dirty clean show ?thesis by simp
qed

section \<open>The reason reported for a diverged repository\<close>

text \<open>
  C3. For a clean repository with a remote branch whose sync status is
  \<open>Diverged (+2/-3)\<close>, \<open>why_not_pull\<close> is evaluated. The text \<open>Behind\<close> does not occur in
  the status, so the second guard answers \<open>already synced\<close> before the guard on
  \<open>Diverged\<close> is reached.
\<close>

theorem why_not_pull_diverged_reason:
  "why_not_pull (sample_repo\<lparr>sync_status := ''Diverged (+2/-3)''\<rparr>) = Some ''already synced''"
  by (simp add: why_not_pull_def sample_repo_def startswith_def)

section \<open>The sync status of an inspected repository\<close>

text \<open>
  C2. In every repository state returned by \<open>check_repo\<close> the sync status is the Unknown
  sentinel \<open>-\<close> exactly when \<open>remote_exists\<close> is false, and when \<open>remote_exists\<close> is true
  the status is exactly one of Synced, Ahead(n), Behind(n) and Diverged(ahead, behind),
  with non-zero counts.
\<close>

theorem check_repo_sync_status_classified:
  assumes "check_repo e repo_path is_worktree tr = (Inr (Some r), tr')"
  shows "(sync_is_unknown (sync_status r) \<longleftrightarrow> \<not> remote_exists r)
       \<and> (remote_exists r \<longrightarrow>
            (sync_is_synced (sync_status r) \<and> \<not> sync_is_ahead (sync_status r)
               \<and> \<not> sync_is_behind (sync_status r) \<and> \<not> sync_is_diverged (sync_status r))
          \<or> (\<not> sync_is_synced (sync_status r) \<and> sync_is_ahead (sync_status r)
               \<and> \<not> sync_is_behind (sync_status r) \<and> \<not> sync_is_diverged (sync_status r))
          \<or> (\<not> sync_is_synced (sync_status r) \<and> \<not> sync_is_ahead (sync_status r)
               \<and> sync_is_behind (sync_status r) \<and> \<not> sync_is_diverged (sync_status r))
          \<or> (\<not> sync_is_synced (sync_status r) \<and> \<not> sync_is_ahead (sync_status r)
               \<and> \<not> sync_is_behind (sync_status r) \<and> sync_is_diverged (sync_status r)))"
proof -
  from check_repo_fields [OF assms] obtain rb tr3 tr4 where
    "check_repo_sync e repo_path rb (remote_exists r) tr3 = (Inr (sync_status r), tr4)"
    by blast
  from check_repo_sync_cases [OF this] show ?thesis
    using sync_variants_exclusive [of "sync_status r"]
    by (auto simp: sync_is_unknown_def)
qed

theorem check_repo_sync_status_classified_witness:
  "fst (check_repo (env_git (git_diverged ''feature'')) (Path ''/work/api'') False [])
     = Inr (Some (sample_repo\<lparr>sync_status := ''Diverged (+2/-3)'', pr_status := ''?''\<rparr>))
   \<and> remote_exists (sample_repo\<lparr>sync_status := ''Diverged (+2/-3)'', pr_status := ''?''\<rparr>)
   \<and> \<not> sync_is_unknown ''Diverged (+2/-3)''
   \<and> \<not> sync_is_synced ''Diverged (+2/-3)''
   \<and> \<not> sync_is_ahead ''Diverged (+2/-3)''
   \<and> \<not> sync_is_behind ''Diverged (+2/-3)''
   \<and> sync_is_diverged ''Diverged (+2/-3)''"
proof -
  let ?r = "sample_repo\<lparr>sync_status := ''Diverged (+2/-3)'', pr_status := ''?''\<rparr>"
  let ?run = "check_repo (env_git (git_diverged ''feature'')) (Path ''/work/api'') False []"
  have ev: "fst ?run = Inr (Some ?r)" by code_simp
  then have run: "?run = (Inr (Some ?r), snd ?run)" by (metis prod.collapse)
  have rex: "remote_exists ?r" by (simp add: sample_repo_def)
  have st: "sync_status ?r = ''Diverged (+2/-3)''" by simp
  from check_repo_sync_status_classified [OF run] rex ev show ?thesis
    unfolding st
    by (auto simp: sync_is_synced_def sync_is_ahead_def sync_is_behind_def
        fmt_ahead_def fmt_behind_def)
qed

section \<open>Trunk branches and rebase\<close>

text \<open>
  C7. For every repository state whose branch is the trunk branch or one of \<open>main\<close>,
  \<open>dev\<close>, \<open>master\<close>: \<open>can_rebase\<close> is false with the reason \<open>on main branch\<close>, and when
  the state was returned by \<open>check_repo\<close> its rebase status is the Unknown sentinel \<open>-\<close>.
\<close>

theorem trunk_branch_rebase_unknown:
  assumes "branch r \<in> {main_branch r, ''main'', ''dev'', ''master''}"
  shows "\<not> can_rebase r \<and> why_not_rebase r = Some ''on main branch''
       \<and> (\<forall>e repo_path is_worktree tr tr'.
             check_repo e repo_path is_worktree tr = (Inr (Some r), tr')
             \<longrightarrow> rebase_status r = ''-'')"
proof -
  from assms have why: "why_not_rebase r = Some ''on main branch''"
    by (simp add: why_not_rebase_def Let_def)
  have "rebase_status r = ''-''"
    if run: "check_repo e repo_path is_worktree tr = (Inr (Some r), tr')"
    for e repo_path is_worktree tr tr'
  proof -
    from check_repo_fields [OF run] obtain tr4 tr5 where
      "check_repo_rebase e repo_path (branch r) (main_branch r) tr4 = (Inr (rebase_status r), tr5)"
      by blast
    from check_repo_rebase_on_main [OF this] assms show ?thesis by simp
  qed
  with why show ?thesis by (simp add: can_rebase_def)
qed

theorem trunk_branch_rebase_unknown_witness:
  "fst (check_repo (env_git (git_diverged ''main'')) (Path ''/work/api'') False [])
     = Inr (Some (sample_repo\<lparr>branch := ''main'', sync_status := ''Diverged (+2/-3)'',
                    rebase_status := ''-'', pr_status := ''-''\<rparr>))
   \<and> branch (sample_repo\<lparr>branch := ''main'', sync_status := ''Diverged (+2/-3)'',
                    rebase_status := ''-'', pr_status := ''-''\<rparr>) = ''main''
   \<and> why_not_rebase (sample_repo\<lparr>branch := ''main'', sync_status := ''Diverged (+2/-3)'',
                    rebase_status := ''-'', pr_status := ''-''\<rparr>) = Some ''on main branch''"
proof -
  let ?r = "sample_repo\<lparr>branch := ''main'', sync_status := ''Diverged (+2/-3)'',
                    rebase_status := ''-'', pr_status := ''-''\<rparr>"
  let ?run = "check_repo (env_git (git_diverged ''main'')) (Path ''/work/api'') False []"
  have ev: "fst ?run = Inr (Some ?r)" by code_simp
  have br: "branch ?r \<in> {main_branch ?r, ''main'', ''dev'', ''master''}" by simp
  from trunk_branch_rebase_unknown [OF br] ev show ?thesis by simp
qed

section \<open>Local changes\<close>

lemma any_tracked_line_iff:
  "any_tracked_line ls
     \<longleftrightarrow> (\<exists>line\<in>set ls. line \<noteq> [] \<and> \<not> startswith line ''??'' \<and> \<not> startswith line ''!!'')"
  by (induction ls) auto

text \<open>
  C4, as the claim states it, at a concrete input: the status query succeeds and reports
  one untracked file, \<open>?? notes.txt\<close>, and nothing else; \<open>has_uncommitted_changes\<close>
  answers False.
\<close>

theorem untracked_file_not_a_change:
  "fst (run_git (env_git (git_diverged ''feature'')) [''status'', ''--porcelain'']
          (Path ''/work/api'') []) = (True, ''?? notes.txt'')
   \<and> splitlines ''?? notes.txt'' = [''?? notes.txt'']
   \<and> fst (has_uncommitted_changes (env_git (git_diverged ''feature'')) (Path ''/work/api'') [])
       = False"
  by code_simp

text \<open>
  C4, amended. When the status query fails, \<open>has_uncommitted_changes\<close> is True. When it
  succeeds, the result is True exactly when some non-empty line of the output starts
  with neither \<open>??\<close> (untracked) nor \<open>!!\<close> (ignored): untracked files do not count.
\<close>

theorem has_uncommitted_changes_tracked_only:
  assumes "run_git e [''status'', ''--porcelain''] repo_path tr = ((ok, output), tr1)"
  shows "has_uncommitted_changes e repo_path tr =
           (\<not> ok \<or> (\<exists>line\<in>set (splitlines output).
                       line \<noteq> [] \<and> \<not> startswith line ''??'' \<and> \<not> startswith line ''!!''),
            tr1)"
  using assms by (simp add: has_uncommitted_changes_def any_tracked_line_iff)

theorem has_uncommitted_changes_tracked_only_witness:
  "fst (run_git env_nothing [''status'', ''--porcelain''] (Path ''/work/api'') [])
     = (False, ''fatal: not a git repository'')
   \<and> fst (has_uncommitted_changes env_nothing (Path ''/work/api'') []) = True
   \<and> fst (run_git
            (env_git [([''status'', ''--porcelain''],
                       ''?? notes.txt'' @ [char_of (10::nat)] @ ''M  api.py'')])
            [''status'', ''--porcelain''] (Path ''/work/api'') [])
     = (True, ''?? notes.txt'' @ [char_of (10::nat)] @ ''M  api.py'')
   \<and> splitlines (''?? notes.txt'' @ [char_of (10::nat)] @ ''M  api.py'')
     = [''?? notes.txt'', ''M  api.py'']
   \<and> fst (has_uncommitted_changes
            (env_git [([''status'', ''--porcelain''],
                       ''?? notes.txt'' @ [char_of (10::nat)] @ ''M  api.py'')])
            (Path ''/work/api'') []) = True"
proof -
  let ?fails = "run_git env_nothing [''status'', ''--porcelain''] (Path ''/work/api'') []"
  let ?out = "''?? notes.txt'' @ [char_of (10::nat)] @ ''M  api.py''"
  let ?works = "run_git (env_git [([''status'', ''--porcelain''], ?out)])
                  [''status'', ''--porcelain''] (Path ''/work/api'') []"
  have ev1: "fst ?fails = (False, ''fatal: not a git repository'')" by code_simp
  then have run1: "?fails = ((False, ''fatal: not a git repository''), snd ?fails)"
    by (metis prod.collapse)
  have ev2: "fst ?works = (True, ?out)" by code_simp
  then have run2: "?works = ((True, ?out), snd ?works)" by (metis prod.collapse)
  have lines: "splitlines ?out = [''?? notes.txt'', ''M  api.py'']" by code_simp
  have tracked: "\<not> startswith ''M  api.py'' ''??'' \<and> \<not> startswith ''M  api.py'' ''!!''"
    by (simp add: startswith_def)
  from has_uncommitted_changes_tracked_only [OF run1]
    has_uncommitted_changes_tracked_only [OF run2]
  show ?thesis unfolding lines using ev1 ev2 lines tracked by simp
qed

section \<open>Reset to remote\<close>

text \<open>
  C6. \<open>reset_to_remote\<close> runs three commands in order: fetch, hard reset to the remote
  branch of the same name, clean of untracked files and directories. When a step fails,
  the procedure returns failure with that step's label and diagnostic message, and the
  calls made end with the failing step: no later step runs. When all three succeed it
  returns success after exactly these three calls.
\<close>

theorem reset_to_remote_steps:
  assumes "fetch = [''fetch'', ''origin'']"
    and "reset = [''reset'', ''--hard'', ''origin/'' @ branch repo]"
    and "clean = [''clean'', ''-fd'']"
    and "fst (run_git e fetch (path repo) tr) = (ok1, out1)"
    and "fst (run_git e reset (path repo) (tr @ [RunGit fetch (path repo)])) = (ok2, out2)"
    and "fst (run_git e clean (path repo)
               (tr @ [RunGit fetch (path repo), RunGit reset (path repo)])) = (ok3, out3)"
  shows "(\<not> ok1 \<longrightarrow> reset_to_remote e repo tr =
            ((False, ''Fetch failed: '' @ out1), tr @ [RunGit fetch (path repo)]))
       \<and> (ok1 \<and> \<not> ok2 \<longrightarrow> reset_to_remote e repo tr =
            ((False, ''Reset failed: '' @ out2),
             tr @ [RunGit fetch (path repo), RunGit reset (path repo)]))
       \<and> (ok1 \<and> ok2 \<and> \<not> ok3 \<longrightarrow> reset_to_remote e repo tr =
            ((False, ''Clean failed: '' @ out3),
             tr @ [RunGit fetch (path repo), RunGit reset (path repo), RunGit clean (path repo)]))
       \<and> (ok1 \<and> ok2 \<and> ok3 \<longrightarrow> reset_to_remote e repo tr =
            ((True, ''Reset to origin/'' @ branch repo),
             tr @ [RunGit fetch (path repo), RunGit reset (path repo), RunGit clean (path repo)]))"
proof -
  let ?c1 = "RunGit fetch (path repo)" and ?c2 = "RunGit reset (path repo)"
  have r1: "run_git e fetch (path repo) tr = ((ok1, out1), tr @ [?c1])"
    using assms(4) run_git_eq [of e fetch "path repo" tr] by simp
  have r2: "run_git e reset (path repo) (tr @ [?c1]) = ((ok2, out2), tr @ [?c1, ?c2])"
    using assms(5) run_git_eq [of e reset "path repo" "tr @ [?c1]"] by simp
  have r3: "run_git e clean (path repo) (tr @ [?c1, ?c2])
              = ((ok3, out3), tr @ [?c1, ?c2, RunGit clean (path repo)])"
    using assms(6) run_git_eq [of e clean "path repo" "tr @ [?c1, ?c2]"] by simp
  show ?thesis
    using r1 r2 r3 unfolding reset_to_remote_def assms(1-3) [symmetric] by simp
qed

theorem reset_to_remote_steps_witness:
  "fst (run_git (env_git [([''fetch'', ''origin''], [])]) [''fetch'', ''origin'']
          (path sample_repo) []) = (True, [])
   \<and> fst (run_git (env_git [([''fetch'', ''origin''], [])])
            [''reset'', ''--hard'', ''origin/'' @ branch sample_repo] (path sample_repo)
            [RunGit [''fetch'', ''origin''] (path sample_repo)])
       = (False, ''fatal: not a git repository'')
   \<and> reset_to_remote (env_git [([''fetch'', ''origin''], [])]) sample_repo [] =
       ((False, ''Reset failed: fatal: not a git repository''),
        [RunGit [''fetch'', ''origin''] (path sample_repo),
         RunGit [''reset'', ''--hard'', ''origin/'' @ branch sample_repo] (path sample_repo)])"
proof -
  let ?e = "env_git [([''fetch'', ''origin''], [])]"
  let ?fetch = "[''fetch'', ''origin'']"
  let ?reset = "[''reset'', ''--hard'', ''origin/'' @ branch sample_repo]"
  let ?clean = "[''clean'', ''-fd'']"
  have a1: "fst (run_git ?e ?fetch (path sample_repo) []) = (True, [])" by code_simp
  have a2: "fst (run_git ?e ?reset (path sample_repo) ([] @ [RunGit ?fetch (path sample_repo)]))
              = (False, ''fatal: not a git repository'')" by code_simp
  have a3: "fst (run_git ?e ?clean (path sample_repo)
                  ([] @ [RunGit ?fetch (path sample_repo), RunGit ?reset (path sample_repo)]))
              = (False, ''fatal: not a git repository'')" by code_simp
  from reset_to_remote_steps [OF refl refl refl a1 a2 a3] a1 a2 show ?thesis by simp
qed

section \<open>Deleting a worktree\<close>

text \<open>
  A pointer text that starts with \<open>gitdir:\<close> always has a second field: the owning
  repository is three levels above the path written after the prefix.
\<close>

lemma pointer_target_gitdir:
  assumes "startswith content ''gitdir:''"
  shows "pointer_target content = Inr (parent (parent (parent (Path (strip (drop 7 content))))))"
proof -
  from assms have "take 7 content = ''gitdir:''"
    by (simp add: startswith_def eval_nat_numeral)
  then have "content = ''gitdir:'' @ drop 7 content" by (metis append_take_drop_id)
  then obtain rest where c: "content = ''gitdir:'' @ rest" and r: "rest = drop 7 content"
    by blast
  have "split_once CHR '':'' (''gitdir:'' @ rest) = [''gitdir'', rest]"
    by (simp add: split_once_def)
  with c r show ?thesis by (simp add: pointer_target_def)
qed

text \<open>
  C5, as the claim states it, at a concrete input: the worktree is attached to its
  repository, the git-dir query times out, and \<open>delete_local_folder\<close> removes the
  directory. The calls made are the query and the removal: no detach command was issued.
\<close>

theorem worktree_deleted_without_detach:
  "type_label sample_worktree = ''Worktree''
   \<and> delete_local_folder (env_worktree TimeoutExpired) sample_worktree [] =
       (Inr (True, ''Worktree folder deleted: api-feature''),
        [RunGit [''rev-parse'', ''--git-dir''] (Path ''/work/api-feature''),
         Rmtree (Path ''/work/api-feature'')])"
  by code_simp

text \<open>
  C5, amended. For a worktree, \<open>delete_local_folder\<close> first queries the git directory;
  what it does next is decided as follows. When the query succeeds with a non-empty
  answer, \<open>.git\<close> is a file, its text starts with \<open>gitdir:\<close> and the directory three
  levels above the path written there exists, the procedure issues the detach command
  (\<open>worktree remove --force\<close>) in that directory and returns that command's outcome; it
  does not remove the directory itself, whether the detachment succeeded or failed. When
  the pointer file cannot be read, the exception leaves the procedure and nothing is
  removed. In every other case (the query fails or answers nothing, \<open>.git\<close> is not a
  file, the text lacks the prefix, or the owning directory does not exist) no detach
  command is issued and the worktree's directory is removed directly.
\<close>

theorem delete_local_folder_worktree_calls:
  assumes "type_label repo = ''Worktree''"
    and "fst (run_git e [''rev-parse'', ''--git-dir''] (path repo) tr) = (ok, git_dir)"
    and "tr1 = tr @ [RunGit [''rev-parse'', ''--git-dir''] (path repo)]"
    and "git_file = path_child (path repo) ''.git''"
    and "detach = [''worktree'', ''remove'', ''--force'', path_str (path repo)]"
  shows "(\<forall>text main_repo ok2 output.
            ok \<and> git_dir \<noteq> [] \<and> is_file e tr1 git_file
            \<and> read_text e tr1 git_file = Inr text
            \<and> startswith (strip text) ''gitdir:''
            \<and> main_repo = parent (parent (parent (Path (strip (drop 7 (strip text))))))
            \<and> path_exists e tr1 main_repo
            \<and> fst (run_git e detach main_repo tr1) = (ok2, output)
            \<longrightarrow> delete_local_folder e repo tr =
                  (Inr (if ok2 then (True, ''Worktree removed: '' @ name repo)
                        else (False, ''Worktree remove failed: '' @ output)),
                   tr1 @ [RunGit detach main_repo]))
       \<and> (\<forall>err.
            ok \<and> git_dir \<noteq> [] \<and> is_file e tr1 git_file
            \<and> read_text e tr1 git_file = Inl err
            \<longrightarrow> delete_local_folder e repo tr = (Inl err, tr1))
       \<and> (\<not> ok \<or> git_dir = [] \<or> \<not> is_file e tr1 git_file
            \<or> (\<exists>text. read_text e tr1 git_file = Inr text
                  \<and> (\<not> startswith (strip text) ''gitdir:''
                      \<or> \<not> path_exists e tr1
                            (parent (parent (parent (Path (strip (drop 7 (strip text)))))))))
            \<longrightarrow> delete_local_folder e repo tr =
                  (Inr (case rmtree_raises e tr1 (path repo) of
                          None \<Rightarrow> (True, ''Worktree folder deleted: '' @ name repo)
                        | Some msg \<Rightarrow> (False, ''Delete failed: '' @ msg)),
                   tr1 @ [Rmtree (path repo)]))"
proof -
  let ?q = "[''rev-parse'', ''--git-dir'']"
  have q: "run_git e ?q (path repo) tr = ((ok, git_dir), tr1)"
    using assms(2,3) run_git_eq [of e ?q "path repo" tr] by simp
  have fallback: "(case rmtree_or_report e p deleted tr1
                   of (res, tr2) \<Rightarrow> (Inr res :: py_error + bool \<times> string, tr2))
      = (Inr (case rmtree_raises e tr1 p of
                None \<Rightarrow> (True, deleted)
              | Some msg \<Rightarrow> (False, ''Delete failed: '' @ msg)),
         tr1 @ [Rmtree p])" for p deleted
    by (simp add: rmtree_or_report_def split: option.splits)
  note unfolded = delete_local_folder_def Let_def q
  note names = assms(1,4,5) fallback
  have detach_run: "run_git e detach main_repo tr1
      = (fst (run_git e detach main_repo tr1), tr1 @ [RunGit detach main_repo])" for main_repo
    by (rule run_git_eq)
  have a: "delete_local_folder e repo tr =
                  (Inr (if ok2 then (True, ''Worktree removed: '' @ name repo)
                        else (False, ''Worktree remove failed: '' @ out2)),
                   tr1 @ [RunGit detach main_repo])"
    if "ok" "git_dir \<noteq> []" "is_file e tr1 git_file" "read_text e tr1 git_file = Inr body"
      "startswith (strip body) ''gitdir:''"
      "main_repo = parent (parent (parent (Path (strip (drop 7 (strip body))))))"
      "path_exists e tr1 main_repo" "fst (run_git e detach main_repo tr1) = (ok2, out2)"
    for body main_repo ok2 out2
  proof -
    from that(5,6) have pt: "pointer_target (strip body) = Inr main_repo"
      by (simp add: pointer_target_gitdir)
    from that(8) detach_run [of main_repo]
    have r: "run_git e detach main_repo tr1 = ((ok2, out2), tr1 @ [RunGit detach main_repo])"
      by simp
    show ?thesis unfolding unfolded using that(1-5,7) pt r by (simp add: names)
  qed
  have b: "delete_local_folder e repo tr = (Inl err, tr1)"
    if "ok" "git_dir \<noteq> []" "is_file e tr1 git_file" "read_text e tr1 git_file = Inl err" for err
    unfolding unfolded using that by (simp add: names)
  have c: "delete_local_folder e repo tr =
                  (Inr (case rmtree_raises e tr1 (path repo) of
                          None \<Rightarrow> (True, ''Worktree folder deleted: '' @ name repo)
                        | Some msg \<Rightarrow> (False, ''Delete failed: '' @ msg)),
                   tr1 @ [Rmtree (path repo)])"
    if "\<not> ok \<or> git_dir = [] \<or> \<not> is_file e tr1 git_file
            \<or> (\<exists>body. read_text e tr1 git_file = Inr body
                  \<and> (\<not> startswith (strip body) ''gitdir:''
                      \<or> \<not> path_exists e tr1
                            (parent (parent (parent (Path (strip (drop 7 (strip body)))))))))"
  proof -
    from that consider "\<not> (ok \<and> git_dir \<noteq> [])" | "ok \<and> git_dir \<noteq> []" "\<not> is_file e tr1 git_file"
      | body where "ok \<and> git_dir \<noteq> []" "is_file e tr1 git_file"
          "read_text e tr1 git_file = Inr body" "\<not> startswith (strip body) ''gitdir:''"
      | body where "ok \<and> git_dir \<noteq> []" "is_file e tr1 git_file"
          "read_text e tr1 git_file = Inr body" "startswith (strip body) ''gitdir:''"
          "\<not> path_exists e tr1 (parent (parent (parent (Path (strip (drop 7 (strip body)))))))"
      by blast
    then show ?thesis
    proof cases
      case 1 then show ?thesis unfolding unfolded by (auto simp: names split: option.splits)
    next
      case 2 then show ?thesis unfolding unfolded by (auto simp: names split: option.splits)
    next
      case 3 then show ?thesis unfolding unfolded by (auto simp: names split: option.splits)
    next
      case 4
      from 4(4) have "pointer_target (strip body)
          = Inr (parent (parent (parent (Path (strip (drop 7 (strip body)))))))"
        by (rule pointer_target_gitdir)
      with 4 show ?thesis unfolding unfolded by (auto simp: names split: option.splits)
    qed
  qed
  from a b c show ?thesis by blast
qed

theorem delete_local_folder_worktree_calls_witness:
  "delete_local_folder (env_worktree (Completed 0 ''.git'' [])) sample_worktree [] =
       (Inr (True, ''Worktree removed: api-feature''),
        [RunGit [''rev-parse'', ''--git-dir''] (Path ''/work/api-feature''),
         RunGit [''worktree'', ''remove'', ''--force'', ''/work/api-feature'']
           (Path ''/work/api'')])
   \<and> delete_local_folder (env_worktree (Raised ''git: command not found'')) sample_worktree [] =
       (Inr (True, ''Worktree folder deleted: api-feature''),
        [RunGit [''rev-parse'', ''--git-dir''] (Path ''/work/api-feature''),
         Rmtree (Path ''/work/api-feature'')])"
proof -
  let ?e = "env_worktree (Completed 0 ''.git'' [])"
  let ?f = "env_worktree (Raised ''git: command not found'')"
  let ?q = "[''rev-parse'', ''--git-dir'']"
  let ?tr1 = "[] @ [RunGit ?q (path sample_worktree)]"
  let ?git_file = "path_child (path sample_worktree) ''.git''"
  let ?detach = "[''worktree'', ''remove'', ''--force'', path_str (path sample_worktree)]"
  let ?pointer = "''gitdir: /work/api/.git/worktrees/api-feature''"
  have kind: "type_label sample_worktree = ''Worktree''" by (simp add: sample_worktree_def)
  have p: "path sample_worktree = Path ''/work/api-feature''" by (simp add: sample_worktree_def)
  have n: "name sample_worktree = ''api-feature''" by (simp add: sample_worktree_def)
  have s: "path_str (Path ''/work/api-feature'') = ''/work/api-feature''" by code_simp
  have q: "fst (run_git ?e ?q (path sample_worktree) []) = (True, ''.git'')" by code_simp
  have pointer_file: "is_file ?e ?tr1 ?git_file" by code_simp
  have content: "read_text ?e ?tr1 ?git_file = Inr ?pointer" by code_simp
  have prefix: "startswith (strip ?pointer) ''gitdir:''" by code_simp
  have owner: "Path ''/work/api'' = parent (parent (parent (Path (strip (drop 7 (strip ?pointer))))))"
    by code_simp
  have there: "path_exists ?e ?tr1 (Path ''/work/api'')" by code_simp
  have detached: "fst (run_git ?e ?detach (Path ''/work/api'') ?tr1) = (True, ''.git'')"
    by code_simp
  from delete_local_folder_worktree_calls [OF kind q refl refl refl,
      THEN conjunct1, rule_format, of ?pointer "Path ''/work/api''" True "''.git''"]
    pointer_file content prefix owner there detached
  have first: "delete_local_folder ?e sample_worktree [] =
       (Inr (True, ''Worktree removed: '' @ name sample_worktree),
        ?tr1 @ [RunGit ?detach (Path ''/work/api'')])"
    by simp
  have q2: "fst (run_git ?f ?q (path sample_worktree) []) = (False, ''git: command not found'')"
    by code_simp
  have removed: "rmtree_raises ?f ?tr1 (path sample_worktree) = None" by code_simp
  from delete_local_folder_worktree_calls [OF kind q2 refl refl refl,
      THEN conjunct2, THEN conjunct2, rule_format]
  have "delete_local_folder ?f sample_worktree [] =
       (Inr (case rmtree_raises ?f ?tr1 (path sample_worktree) of
               None \<Rightarrow> (True, ''Worktree folder deleted: '' @ name sample_worktree)
             | Some msg \<Rightarrow> (False, ''Delete failed: '' @ msg)),
        ?tr1 @ [Rmtree (path sample_worktree)])"
    by simp
  then have second: "delete_local_folder ?f sample_worktree [] =
       (Inr (True, ''Worktree folder deleted: '' @ name sample_worktree),
        ?tr1 @ [Rmtree (path sample_worktree)])"
    unfolding removed by simp
  from first second show ?thesis unfolding p n by (simp add: s)
qed

section \<open>The next feature number\<close>

text \<open>The scanning loops compute the largest prefix found, starting from the value so far.\<close>

lemma scan_branch_lines_fold:
  "scan_branch_lines h ls = fold max (found_prefixes (map clean_branch_line ls)) h"
  by (induction ls arbitrary: h) (simp_all add: found_prefixes_def max.commute split: option.splits)

lemma scan_spec_items_fold:
  "scan_spec_items e tr sd h names =
     fold max (found_prefixes (filter (\<lambda>s. is_dir e tr (path_child sd s)) names)) h"
  by (induction names arbitrary: h)
    (simp_all add: found_prefixes_def max.commute split: option.splits)

lemma found_prefixes_append: "found_prefixes (xs @ ys) = found_prefixes xs @ found_prefixes ys"
  by (simp add: found_prefixes_def map_filter_def)

lemma scan_items_fold:
  assumes "scan_items e tr scan_dir h items = Inr n"
  shows "n = fold max (found_prefixes (scanned_spec_folders e tr scan_dir items)) h"
  using assms
proof (induction items arbitrary: h)
  case Nil
  then show ?case by (simp add: scanned_spec_folders_def found_prefixes_def)
next
  case (Cons item rest)
  let ?specs = "path_child (path_child scan_dir item) ''specs''"
  show ?case
  proof (cases "is_dir e tr (path_child scan_dir item) \<and> path_exists e tr ?specs")
    case False
    then have "spec_folders_of e tr scan_dir item = []"
      by (auto simp: spec_folders_of_def Let_def)
    moreover from False Cons.prems have "scan_items e tr scan_dir h rest = Inr n"
      by (auto simp: Let_def split: if_splits)
    ultimately show ?thesis
      using Cons.IH [of h] by (simp add: scanned_spec_folders_def)
  next
    case True
    with Cons.prems obtain spec_items where it: "iterdir e tr ?specs = Inr spec_items"
      and rest: "scan_items e tr scan_dir (scan_spec_items e tr ?specs h spec_items) rest = Inr n"
      by (auto simp: Let_def split: sum.splits)
    from True it have "spec_folders_of e tr scan_dir item
        = filter (\<lambda>s. is_dir e tr (path_child ?specs s)) spec_items"
      by (simp add: spec_folders_of_def Let_def)
    with Cons.IH [OF rest] show ?thesis
      by (simp add: scanned_spec_folders_def found_prefixes_append scan_spec_items_fold)
  qed
qed

text \<open>
  What the program computes: when \<open>get_next_feature_number\<close> returns, the number is one
  more than the largest three-digit prefix found in the cleaned branch lines and the
  spec-folder names, taking 0 when there is none.
\<close>

lemma next_feature_number_of_cleaned_lines:
  assumes "get_next_feature_number e repo_path scan_dir tr = (Inr n, tr')"
    and "iterdir e (tr @ [RunGit [''branch'', ''-a''] repo_path]) scan_dir = Inr items"
    and "found = found_prefixes
           (cleaned_branch_lines e repo_path tr
            @ scanned_spec_folders e (tr @ [RunGit [''branch'', ''-a''] repo_path]) scan_dir items)"
  shows "n = Max (set (0 # found)) + 1
       \<and> (found = [] \<longrightarrow> n = 1)
       \<and> (set found = {41, 42, 43} \<longrightarrow> n = 44)"
proof -
  let ?tr1 = "tr @ [RunGit [''branch'', ''-a''] repo_path]"
  obtain ok branches where
    q: "run_git e [''branch'', ''-a''] repo_path tr = ((ok, branches), ?tr1)"
    using run_git_eq [of e "[''branch'', ''-a'']" repo_path tr] by (metis prod.collapse)
  define highest where
    "highest = (if ok then scan_branch_lines 0 (splitlines branches) else 0)"
  have h: "highest = fold max (found_prefixes (cleaned_branch_lines e repo_path tr)) 0"
    unfolding highest_def cleaned_branch_lines_def q
    by (simp add: scan_branch_lines_fold found_prefixes_def)
  from assms(1,2) have "\<exists>m. scan_items e ?tr1 scan_dir highest items = Inr m \<and> n = m + 1"
    unfolding get_next_feature_number_def q highest_def Let_def
    by (auto split: sum.splits)
  then obtain m where m: "scan_items e ?tr1 scan_dir highest items = Inr m" and n: "n = m + 1"
    by blast
  from scan_items_fold [OF m] h have "m = fold max found 0"
    by (simp add: assms(3) found_prefixes_append)
  then have "m = Max (set (0 # found))" by (simp only: Max.set_eq_fold)
  with n have main: "n = Max (set (0 # found)) + 1" by simp
  moreover from main have "found = [] \<longrightarrow> n = 1" by simp
  moreover from main have "set found = {41, 42, 43} \<longrightarrow> n = 44" by auto
  ultimately show ?thesis by blast
qed

text \<open>
  The scenario of the specification: branches \<open>041-x\<close> and \<open>042-oauth-login\<close>, the
  second checked out in the repository itself, and a spec folder \<open>043-y\<close> give 44.
\<close>

lemma next_feature_number_scenario:
  "get_next_feature_number env_features (Path ''/work/api'') (Path ''/work'') [] =
     (Inr 44, [RunGit [''branch'', ''-a''] (Path ''/work/api'')])"
  by code_simp

text \<open>
  C9. At a concrete input: git lists the branches \<open>041-x\<close>, \<open>042-oauth-login\<close> (marked
  \<open>+\<close>, checked out in a linked worktree) and \<open>main\<close>, and there is no spec folder. The
  branch names carry the prefixes 041 and 042, so one past the maximum is 43. The
  program strips only \<open>*\<close> and spaces from the start of a line, keeps the line
  \<open>+ 042-oauth-login\<close> as it is, finds no prefix in it, and returns 42.
\<close>

theorem next_feature_number_misses_marked_branch:
  "fst (run_git env_linked [''branch'', ''-a''] (Path ''/work/api'') [])
     = (True, ''041-x'' @ [char_of (10::nat)] @ ''+ 042-oauth-login'' @ [char_of (10::nat)]
              @ ''* main'' @ [char_of (10::nat)] @ ''  remotes/origin/main'')
   \<and> map listed_branch_name
         (splitlines (''041-x'' @ [char_of (10::nat)] @ ''+ 042-oauth-login''
                      @ [char_of (10::nat)] @ ''* main'' @ [char_of (10::nat)]
                      @ ''  remotes/origin/main''))
       = [''041-x'', ''042-oauth-login'', ''main'', ''main'']
   \<and> List.map_filter feature_prefix [''041-x'', ''042-oauth-login'', ''main'', ''main'']
       = [41, 42]
   \<and> cleaned_branch_lines env_linked (Path ''/work/api'') []
       = [''041-x'', ''+ 042-oauth-login'', ''main'', ''main'']
   \<and> scanned_spec_folders env_linked [RunGit [''branch'', ''-a''] (Path ''/work/api'')]
         (Path ''/work'') [''api'', ''notes.txt''] = []
   \<and> get_next_feature_number env_linked (Path ''/work/api'') (Path ''/work'') []
       = (Inr 42, [RunGit [''branch'', ''-a''] (Path ''/work/api'')])"
  by code_simp

section \<open>The branch suffix\<close>

text \<open>
  C8, as the claim states it: the suffix generated for the description is not
  \<open>user-authentication\<close>.
\<close>

theorem suffix_keeps_now:
  "generate_speckit_branch_name ''I want to add user authentication now''
     \<noteq> ''user-authentication''"
  by code_simp

text \<open>
  C8, amended. For the description \<open>I want to add user authentication now\<close> the
  generator returns \<open>user-authentication-now\<close>: the words \<open>i\<close>, \<open>want\<close>, \<open>to\<close> and
  \<open>add\<close> are stop words, while \<open>user\<close>, \<open>authentication\<close> and \<open>now\<close> are not and
  are kept.
\<close>

theorem suffix_for_user_authentication:
  "generate_speckit_branch_name ''I want to add user authentication now''
     = ''user-authentication-now''
   \<and> list_all (\<lambda>w. w \<in> set stop_words) [''i'', ''want'', ''to'', ''add'']
   \<and> list_all (\<lambda>w. w \<notin> set stop_words) [''user'', ''authentication'', ''now'']"
  by code_simp

text \<open>Lowercasing leaves no ASCII capital, so every word found is lowercase.\<close>

lemma lower_char_alpha: "is_ascii_alpha (lower_char c) \<Longrightarrow> is_ascii_lower (lower_char c)"
  unfolding is_ascii_alpha_def is_ascii_lower_def is_ascii_upper_def lower_char_def ord_def
  by (auto split: if_splits)

lemma findall_alpha_from_ok:
  assumes "\<forall>c\<in>set cur. is_ascii_lower c"
    and "\<forall>c\<in>set s. is_ascii_alpha c \<longrightarrow> is_ascii_lower c"
  shows "\<forall>w\<in>set (findall_alpha_from cur s). word_ok w"
  using assms
proof (induction s arbitrary: cur)
  case Nil
  then show ?case by (simp add: word_ok_def list_all_iff)
next
  case (Cons c s)
  show ?case
  proof (cases "is_ascii_alpha c")
    case True
    with Cons.prems have "\<forall>c\<in>set (cur @ [c]). is_ascii_lower c" by simp
    with Cons.IH [of "cur @ [c]"] Cons.prems True show ?thesis by simp
  next
    case False
    from Cons.IH [of "[]"] Cons.prems
    have "\<forall>w\<in>set (findall_alpha_from [] s). word_ok w" by simp
    with False Cons.prems show ?thesis by (simp add: word_ok_def list_all_iff)
  qed
qed

lemma findall_alpha_lower_ok: "\<forall>w\<in>set (findall_alpha (lower d)). word_ok w"
  unfolding findall_alpha_def
  by (rule findall_alpha_from_ok) (auto simp: lower_def lower_char_alpha)

lemma join_nonempty: "ws \<noteq> [] \<Longrightarrow> \<forall>w\<in>set ws. w \<noteq> [] \<Longrightarrow> join sep ws \<noteq> []"
  by (induction sep ws rule: join.induct) auto

lemma set_join: "set (join sep ws) \<subseteq> set sep \<union> (\<Union>w\<in>set ws. set w)"
  by (induction sep ws rule: join.induct) auto

lemma suffix_words:
  "\<exists>ws. generate_speckit_branch_name d = join ''-'' ws \<and> 1 \<le> length ws \<and> length ws \<le> 4
        \<and> (\<forall>w\<in>set ws. word_ok w)"
proof -
  let ?words = "findall_alpha (lower d)"
  let ?m1 = "filter (\<lambda>w. w \<notin> set stop_words \<and> length w \<ge> 3) ?words"
  let ?m2 = "if ?m1 = [] then take 3 (filter (\<lambda>w. length w \<ge> 2) ?words) else ?m1"
  have ok: "\<forall>w\<in>set ?m2. word_ok w"
    using findall_alpha_lower_ok [of d] by (auto dest: in_set_takeD)
  show ?thesis
  proof (cases "?m2 = []")
    case True
    then have "generate_speckit_branch_name d = join ''-'' [''feature'']"
      by (simp add: generate_speckit_branch_name_def Let_def)
    moreover have "word_ok ''feature''"
      by (simp add: word_ok_def is_ascii_lower_def ord_def)
    ultimately show ?thesis by (intro exI [of _ "[''feature'']"]) simp
  next
    case False
    then have "generate_speckit_branch_name d = join ''-'' (take 4 ?m2)"
      by (simp add: generate_speckit_branch_name_def Let_def)
    moreover from False have "1 \<le> length (take 4 ?m2)"
      by (cases ?m2) simp_all
    moreover have "length (take 4 ?m2) \<le> 4" by simp
    moreover from ok have "\<forall>w\<in>set (take 4 ?m2). word_ok w"
      by (meson in_set_takeD)
    ultimately show ?thesis by blast
  qed
qed

text \<open>
  C10. For every description, the empty one and those without letters included, the
  generated suffix is not empty, consists of lowercase ASCII letters and hyphens only,
  and is one to four non-empty lowercase words joined by hyphens.
\<close>

theorem suffix_well_formed:
  "generate_speckit_branch_name d \<noteq> []
   \<and> (\<forall>c\<in>set (generate_speckit_branch_name d). is_ascii_lower c \<or> c = CHR ''-'')
   \<and> (\<exists>ws. generate_speckit_branch_name d = join ''-'' ws \<and> 1 \<le> length ws \<and> length ws \<le> 4
        \<and> (\<forall>w\<in>set ws. w \<noteq> [] \<and> (\<forall>c\<in>set w. is_ascii_lower c)))"
proof -
  obtain ws where ws: "generate_speckit_branch_name d = join ''-'' ws" "1 \<le> length ws"
    "length ws \<le> 4" "\<forall>w\<in>set ws. word_ok w"
    using suffix_words by blast
  from ws(2) have ne: "ws \<noteq> []" by auto
  from ws(4) have "\<forall>w\<in>set ws. w \<noteq> []" by (simp add: word_ok_def)
  with ne have "join ''-'' ws \<noteq> []" by (rule join_nonempty)
  moreover have "\<forall>c\<in>set (join ''-'' ws). is_ascii_lower c \<or> c = CHR ''-''"
    using set_join [of "''-''" ws] ws(4) by (auto simp: word_ok_def list_all_iff)
  ultimately show ?thesis using ws by (auto simp: word_ok_def list_all_iff)
qed

theorem suffix_well_formed_witness:
  "generate_speckit_branch_name ''42 !!'' = ''feature''
   \<and> generate_speckit_branch_name [] = ''feature''
   \<and> generate_speckit_branch_name ''Fix the LOGIN page of my shop, again and again''
       = ''fix-login-page-shop''
   \<and> generate_speckit_branch_name ''42 !!'' \<noteq> []
   \<and> list_all (\<lambda>c. is_ascii_lower c \<or> c = CHR ''-'') (generate_speckit_branch_name ''42 !!'')"
proof -
  have "generate_speckit_branch_name ''42 !!'' = ''feature''" by code_simp
  moreover have "generate_speckit_branch_name [] = ''feature''" by code_simp
  moreover have "generate_speckit_branch_name ''Fix the LOGIN page of my shop, again and again''
       = ''fix-login-page-shop''" by code_simp
  ultimately show ?thesis
    using suffix_well_formed [of "''42 !!''"] by (simp add: list_all_iff)
qed

end
